theory Spec2Isabelle
  imports Complex_Main "HOL-Library.Sublist"
begin

section \<open>Python values and exceptions\<close>

text \<open>
  The script \<^verbatim>\<open>ipro_in_tax_division.py\<close> works on decoded JSON: what
  \<^verbatim>\<open>r.json()\<close> hands over is built from \<^verbatim>\<open>None\<close>, booleans, integers,
  floats, strings, lists and dictionaries with string keys. A dictionary is kept as its
  list of items and read with \<open>map_of\<close>. A float is a rational (every finite double is
  one), an infinity or a NaN; the only operation the script applies to one is \<^verbatim>\<open>int()\<close>.
\<close>

datatype pyfloat = Finite rat | Infinite | NaN

datatype json =
    JNull
  | JBool bool
  | JInt int
  | JFloat pyfloat
  | JStr string
  | JList "json list"
  | JDict "(string \<times> json) list"

text \<open>The exceptions that the modelled statements can raise.\<close>

datatype exn =
    KeyError
  | IndexError
  | TypeError
  | ValueError
  | OverflowError
  | ZeroDivisionError
  | AttributeError
  | NameError
  | UnboundLocalError
  | JSONDecodeError
  | EOFError
  | UnpicklingError
  | FileNotFoundError
  | PermissionError
  | TreeError

text \<open>Sequencing of statements that may raise: the first exception wins.\<close>

definition ebind :: "exn + 'a \<Rightarrow> ('a \<Rightarrow> exn + 'b) \<Rightarrow> exn + 'b" where
  "ebind m f = (case m of Inl e \<Rightarrow> Inl e | Inr x \<Rightarrow> f x)"

text \<open>
  \<^verbatim>\<open>x['key']\<close>: only a dictionary can be subscripted with a string; lists and
  strings raise TypeError for a non-integer index, the other values are not
  subscriptable.
\<close>

fun getitem :: "json \<Rightarrow> string \<Rightarrow> exn + json" where
  "getitem (JDict kvs) k = (case map_of kvs k of None \<Rightarrow> Inl KeyError | Some v \<Rightarrow> Inr v)"
| "getitem _ k = Inl TypeError"

text \<open>
  \<^verbatim>\<open>x[0]\<close>: the first element of a list, the first character of a string
  (IndexError when empty); a decoded JSON dictionary has string keys only, so the
  key \<^verbatim>\<open>0\<close> is never present.
\<close>

fun getitem0 :: "json \<Rightarrow> exn + json" where
  "getitem0 (JList []) = Inl IndexError"
| "getitem0 (JList (x # xs)) = Inr x"
| "getitem0 (JStr []) = Inl IndexError"
| "getitem0 (JStr (c # cs)) = Inr (JStr [c])"
| "getitem0 (JDict kvs) = Inl KeyError"
| "getitem0 _ = Inl TypeError"

text \<open>
  \<^verbatim>\<open>for x in v\<close>: the elements of a list, the characters of a string, the keys of a
  dictionary; anything else is not iterable.
\<close>

fun iterate :: "json \<Rightarrow> exn + json list" where
  "iterate (JList xs) = Inr xs"
| "iterate (JStr s) = Inr (map (\<lambda>c. JStr [c]) s)"
| "iterate (JDict kvs) = Inr (map JStr (remdups (map fst kvs)))"
| "iterate _ = Inl TypeError"

text \<open>\<^verbatim>\<open>len(v)\<close>.\<close>

fun len :: "json \<Rightarrow> exn + nat" where
  "len (JList xs) = Inr (length xs)"
| "len (JStr s) = Inr (length s)"
| "len (JDict kvs) = Inr (length (remdups (map fst kvs)))"
| "len _ = Inl TypeError"

text \<open>
  \<^verbatim>\<open>int(v)\<close>. How Python reads a string as an integer (surrounding whitespace, sign,
  underscores, digit limits) is a parameter \<open>s2i\<close> of the model, \<open>None\<close> standing for
  ValueError, so that every result below holds whatever the interpreter accepts.
  A float is truncated towards zero.
\<close>

fun py_int :: "(string \<Rightarrow> int option) \<Rightarrow> json \<Rightarrow> exn + int" where
  "py_int s2i (JInt n) = Inr n"
| "py_int s2i (JBool b) = Inr (if b then 1 else 0)"
| "py_int s2i (JFloat (Finite q)) = Inr (if 0 \<le> q then \<lfloor>q\<rfloor> else \<lceil>q\<rceil>)"
| "py_int s2i (JFloat Infinite) = Inl OverflowError"
| "py_int s2i (JFloat NaN) = Inl ValueError"
| "py_int s2i (JStr s) = (case s2i s of None \<Rightarrow> Inl ValueError | Some n \<Rightarrow> Inr n)"
| "py_int s2i _ = Inl TypeError"

section \<open>The filter stage: \<^verbatim>\<open>process_interpro_obj\<close>\<close>

text \<open>The dataclass \<^verbatim>\<open>Protein\<close>; its annotations are not enforced at run time.\<close>

record Protein =
  prot_acc :: json
  prot_len :: json
  prot_tax :: int
  dom_loc :: "(json \<times> json) list"

text \<open>
  The list comprehension of line 86:
  \<^verbatim>\<open>[(x['start'],x['end']) for x in protein[...][0][...][0]['fragments']]\<close>.
\<close>

fun fragment_pairs :: "json list \<Rightarrow> exn + (json \<times> json) list" where
  "fragment_pairs [] = Inr []"
| "fragment_pairs (x # xs) =
     ebind (getitem x ''start'') (\<lambda>s.
     ebind (getitem x ''end'') (\<lambda>e.
     ebind (fragment_pairs xs) (\<lambda>ps. Inr ((s, e) # ps))))"

definition locations_of :: "json \<Rightarrow> exn + (json \<times> json) list" where
  "locations_of protein =
     ebind (getitem protein ''entries'') (\<lambda>es.
     ebind (getitem0 es) (\<lambda>e0.
     ebind (getitem e0 ''entry_protein_locations'') (\<lambda>ls.
     ebind (getitem0 ls) (\<lambda>l0.
     ebind (getitem l0 ''fragments'') (\<lambda>fs.
     ebind (iterate fs) fragment_pairs)))))"

text \<open>
  Lines 85 to 88, the four assignments at the head of the loop body, in the order of
  the source: \<^verbatim>\<open>prot_acc\<close>, \<^verbatim>\<open>locations\<close>, \<^verbatim>\<open>prot_len\<close>, \<^verbatim>\<open>tax_acc\<close>.
\<close>

definition record_fields :: "(string \<Rightarrow> int option) \<Rightarrow> json \<Rightarrow> exn + (json \<times> (json \<times> json) list \<times> json \<times> int)" where
  "record_fields s2i protein =
     ebind (ebind (getitem protein ''metadata'') (\<lambda>m. getitem m ''accession'')) (\<lambda>acc.
     ebind (locations_of protein) (\<lambda>locations.
     ebind (ebind (getitem protein ''metadata'') (\<lambda>m. getitem m ''length'')) (\<lambda>plen.
     ebind (ebind (ebind (ebind (getitem protein ''metadata'')
              (\<lambda>m. getitem m ''source_organism'')) (\<lambda>so. getitem so ''taxId'')) (py_int s2i)) (\<lambda>tax_acc.
     Inr (acc, locations, plen, tax_acc)))))"

text \<open>
  The loop of lines 84 to 93 over \<^verbatim>\<open>ip_obj\<close>, with the list \<^verbatim>\<open>processed_obj\<close> as
  accumulator: the membership test comes after the four assignments.
\<close>

fun process_loop :: "(string \<Rightarrow> int option) \<Rightarrow> json list \<Rightarrow> int set \<Rightarrow> Protein list \<Rightarrow> exn + Protein list" where
  "process_loop s2i [] tax_to_keep processed_obj = Inr processed_obj"
| "process_loop s2i (protein # rest) tax_to_keep processed_obj =
     (case record_fields s2i protein of
        Inl e \<Rightarrow> Inl e
      | Inr (acc, locations, plen, tax_acc) \<Rightarrow>
          if tax_acc \<in> tax_to_keep
          then process_loop s2i rest tax_to_keep
                 (processed_obj @ [\<lparr>prot_acc = acc, prot_len = plen,
                                    prot_tax = tax_acc, dom_loc = locations\<rparr>])
          else process_loop s2i rest tax_to_keep processed_obj)"

definition process_interpro_obj :: "(string \<Rightarrow> int option) \<Rightarrow> json list \<Rightarrow> int set \<Rightarrow> exn + Protein list" where
  "process_interpro_obj s2i ip_obj tax_to_keep = process_loop s2i ip_obj tax_to_keep []"

section \<open>The fetch stage: \<^verbatim>\<open>get_query_from_interpro\<close>\<close>

text \<open>
  What \<^verbatim>\<open>session.get(url, timeout=10.0)\<close> does is decided by the network: it raises
  (\<open>Failed\<close>), or it returns a response \<open>r\<close>, of which the script reads \<^verbatim>\<open>r.ok\<close>
  and \<^verbatim>\<open>r.json()\<close> (\<open>None\<close> when the body is not JSON and \<^verbatim>\<open>r.json()\<close> raises).
\<close>

datatype outcome = Failed | Got bool "json option"

text \<open>
  The inner function \<^verbatim>\<open>get_pg\<close>, lines 53 to 64, applied to the outcome of its request.
  Its value is an exception, Python's \<^verbatim>\<open>None\<close> (\<open>Inr None\<close>: the function falls off
  its end when \<^verbatim>\<open>r.ok\<close> is false) or the pair \<^verbatim>\<open>(_temp_obj, next_page)\<close>.
  In the \<^verbatim>\<open>except\<close> branch the f-string evaluates \<^verbatim>\<open>r.json()\<close>, but \<^verbatim>\<open>r\<close> is assigned
  only when \<^verbatim>\<open>session.get\<close> has returned: the name is unbound, the lookup raises
  UnboundLocalError before anything is printed, and \<^verbatim>\<open>return (None, None)\<close> is not
  reached.
\<close>

definition get_pg :: "outcome \<Rightarrow> exn + (json \<times> json) option" where
  "get_pg out =
     (case out of
        Failed \<Rightarrow> Inl UnboundLocalError
      | Got ok body \<Rightarrow>
          if ok then
            (case body of
               None \<Rightarrow> Inl JSONDecodeError
             | Some temp_obj \<Rightarrow>
                 ebind (getitem temp_obj ''next'') (\<lambda>next_page. Inr (Some (temp_obj, next_page))))
          else Inr None)"

text \<open>The tuple assignment \<^verbatim>\<open>a, b = get_pg(url)\<close>: \<^verbatim>\<open>None\<close> cannot be unpacked.\<close>

definition unpack :: "(json \<times> json) option \<Rightarrow> exn + json \<times> json" where
  "unpack v = (case v of None \<Rightarrow> Inl TypeError | Some p \<Rightarrow> Inr p)"

text \<open>
  Line 67, \<^verbatim>\<open>round(int(obj['count']) / len(obj['results']))\<close>. The quotient is a float:
  true division of integers raises ZeroDivisionError for a zero divisor and
  OverflowError when the correctly rounded quotient is no finite double, that is from
  \<open>2^1024 - 2^970\<close> on. The rounded value only sets the length of the progress bar and
  is not kept.
\<close>

definition true_div :: "int \<Rightarrow> nat \<Rightarrow> exn + unit" where
  "true_div c n =
     (if n = 0 then Inl ZeroDivisionError
      else if (2::rat) ^ 1024 - 2 ^ 970 \<le> \<bar>of_int c / of_nat n\<bar> then Inl OverflowError
      else Inr ())"

definition page_total :: "(string \<Rightarrow> int option) \<Rightarrow> json \<Rightarrow> exn + unit" where
  "page_total s2i obj =
     ebind (ebind (getitem obj ''count'') (py_int s2i)) (\<lambda>c.
     ebind (ebind (getitem obj ''results'') len) (\<lambda>n. true_div c n))"

text \<open>
  Lines 75 and 76: \<^verbatim>\<open>obj['results'].append(entry)\<close> for every entry; only a list has
  \<^verbatim>\<open>append\<close>, and the attribute is looked up only when there is an entry.
\<close>

fun append_all :: "json \<Rightarrow> json list \<Rightarrow> exn + json" where
  "append_all results [] = Inr results"
| "append_all (JList xs) (entry # es) = append_all (JList (xs @ [entry])) es"
| "append_all _ (entry # es) = Inl AttributeError"

text \<open>
  The \<^verbatim>\<open>while\<close> loop of lines 69 to 77. Its state is the list of URLs requested so
  far, \<^verbatim>\<open>next_page\<close> and the value of \<^verbatim>\<open>obj['results']\<close>; \<open>net k url\<close> is the outcome
  of the request number \<open>k\<close> of this call. The bare \<^verbatim>\<open>except: continue\<close> covers the
  call of \<^verbatim>\<open>get_pg\<close> and the unpacking only; what the \<^verbatim>\<open>else\<close> branch raises leaves
  the function. The loop need not end, so it is a partial function: \<open>None\<close> is a run
  that never returns.
\<close>

partial_function (option) fetch_loop ::
  "(nat \<Rightarrow> json \<Rightarrow> outcome) \<Rightarrow> json list \<times> json \<times> json \<Rightarrow> ((exn + json) \<times> json list) option" where
  "fetch_loop net st =
     (case st of (reqs, next_page, results) \<Rightarrow>
        if next_page = JNull then Some (Inr results, reqs)
        else
          (case ebind (get_pg (net (length reqs) next_page)) unpack of
             Inl e \<Rightarrow> fetch_loop net (reqs @ [next_page], next_page, results)
           | Inr (new_obj, next_page') \<Rightarrow>
               (case ebind (ebind (getitem new_obj ''results'') iterate) (append_all results) of
                  Inl e \<Rightarrow> Some (Inl e, reqs @ [next_page])
                | Inr results' \<Rightarrow> fetch_loop net (reqs @ [next_page], next_page', results'))))"

text \<open>
  \<^verbatim>\<open>get_query_from_interpro(hit_id)\<close>. \<open>tqdm_bound\<close> says whether the import of line 29
  has bound the name \<^verbatim>\<open>tqdm\<close>, which line 68 looks up whatever \<^verbatim>\<open>TQDM_ON\<close> is.
  The first call of \<^verbatim>\<open>get_pg\<close> is outside any \<^verbatim>\<open>try\<close>. Once line 67 has passed,
  \<^verbatim>\<open>obj\<close> is a dictionary with the key \<^verbatim>\<open>results\<close>, so the model reads the value once
  and carries it through the loop. The result is the value returned or the exception
  raised, with the URLs requested.
\<close>

definition base_url :: "string \<Rightarrow> json" where
  "base_url hit_id =
     JStr (''https://www.ebi.ac.uk/interpro/api/protein/uniprot/entry/interpro/'' @ ''/'' @ hit_id)"

definition get_query_from_interpro ::
  "bool \<Rightarrow> (string \<Rightarrow> int option) \<Rightarrow> (nat \<Rightarrow> json \<Rightarrow> outcome) \<Rightarrow> string \<Rightarrow> ((exn + json) \<times> json list) option" where
  "get_query_from_interpro tqdm_bound s2i net hit_id =
     (case ebind (get_pg (net 0 (base_url hit_id))) unpack of
        Inl e \<Rightarrow> Some (Inl e, [base_url hit_id])
      | Inr (obj, next_page) \<Rightarrow>
          (case page_total s2i obj of
             Inl e \<Rightarrow> Some (Inl e, [base_url hit_id])
           | Inr progress_total \<Rightarrow>
               if \<not> tqdm_bound then Some (Inl NameError, [base_url hit_id])
               else
                 (case getitem obj ''results'' of
                    Inl e \<Rightarrow> Some (Inl e, [base_url hit_id])
                  | Inr results \<Rightarrow> fetch_loop net ([base_url hit_id], next_page, results))))"

section \<open>The pipeline: \<^verbatim>\<open>make_tree\<close>, \<^verbatim>\<open>main\<close> and the command line\<close>

text \<open>\<^verbatim>\<open>str(n)\<close> of an integer, as the f-strings of lines 172 and 178 format it.\<close>

fun digits_of :: "nat \<Rightarrow> string" where
  "digits_of n =
     (if n < 10 then [''0123456789'' ! n]
      else digits_of (n div 10) @ [''0123456789'' ! (n mod 10)])"

declare digits_of.simps [simp del]

definition str_of_int :: "int \<Rightarrow> string" where
  "str_of_int i = (if i < 0 then CHR ''-'' # digits_of (nat (- i)) else digits_of (nat i))"

text \<open>
  The file system as the script sees it. A path holds what a \<^verbatim>\<open>pickle.dump\<close> of a
  protein list wrote, a rendered tree, or something that \<^verbatim>\<open>open\<close> or
  \<^verbatim>\<open>pickle.load\<close> refuses with the given exception (a directory, a file without
  read permission, a truncated pickle). A rendered tree is no pickle.
\<close>

datatype fcontent = Pickled "Protein list" | Pdf | Unreadable exn

text \<open>Lines 180 and 181, \<^verbatim>\<open>open(path_file, 'rb')\<close> and \<^verbatim>\<open>pickle.load(f)\<close>, on a file that exists.\<close>

fun load_content :: "fcontent \<Rightarrow> exn + Protein list" where
  "load_content (Pickled ps) = Inr ps"
| "load_content Pdf = Inl UnpicklingError"
| "load_content (Unreadable e) = Inl e"

text \<open>
  What writing a file at a path comes to: the file is written; or it cannot be opened,
  the first exception is raised and nothing changes; or it is opened and the writing
  raises the first exception, leaving a file that a later load refuses with the second.
\<close>

datatype write_outcome = Written | Refused exn | Torn exn exn

text \<open>What a run does that can be seen from outside, in order.\<close>

datatype event =
    Fetch string
  | Request json
  | Filter
  | Load string
  | Dump string "Protein list"
  | MakeTree "Protein list"
  | Render string
  | Show string
  | Print string

text \<open>
  The collaborators of a run: whether \<^verbatim>\<open>tqdm\<close> could be imported, how \<^verbatim>\<open>int()\<close>
  reads a string, the network, what \<^verbatim>\<open>ncbi.get_descendant_taxa\<close> answers for a root
  (the descendants, or an exception), whether the tree library builds and decorates
  the tree of lines 102 to 170 (\<open>None\<close>) or raises, what writing the cache file and
  what rendering to a path come to, and whether the viewer of line 173 raises.
\<close>

record ext =
  ext_tqdm :: bool
  ext_s2i :: "string \<Rightarrow> int option"
  ext_net :: "nat \<Rightarrow> json \<Rightarrow> outcome"
  ext_descendants :: "int \<Rightarrow> exn + int set"
  ext_gen_tree :: "Protein list \<Rightarrow> int \<Rightarrow> string \<Rightarrow> exn option"
  ext_dump :: "string \<Rightarrow> write_outcome"
  ext_render :: "string \<Rightarrow> write_outcome"
  ext_show :: "exn option"

record run =
  run_result :: "exn + unit"
  run_files :: "string \<rightharpoonup> fcontent"
  run_trace :: "event list"

text \<open>
  \<^verbatim>\<open>make_tree\<close>: everything before line 172 belongs to the tree library; line 172
  renders to \<^verbatim>\<open>save_to_dir + f"{queried_dom}_in_{main_tax_id}.pdf"\<close>, which writes
  that file, and line 173 opens the viewer. The value is the exception raised, if any,
  with the files and the events after the call.
\<close>

definition make_tree ::
  "ext \<Rightarrow> (string \<rightharpoonup> fcontent) \<Rightarrow> Protein list \<Rightarrow> int \<Rightarrow> string \<Rightarrow> string \<Rightarrow>
     (exn + unit) \<times> (string \<rightharpoonup> fcontent) \<times> event list" where
  "make_tree x fs ipr_obj main_tax_id queried_dom save_to_dir =
     (case ext_gen_tree x ipr_obj main_tax_id queried_dom of
        Some e \<Rightarrow> (Inl e, fs, [])
      | None \<Rightarrow>
          (let pdf = save_to_dir @ queried_dom @ ''_in_'' @ str_of_int main_tax_id @ ''.pdf''
           in case ext_render x pdf of
                Refused e \<Rightarrow> (Inl e, fs, [Render pdf])
              | Torn e e' \<Rightarrow> (Inl e, fs(pdf \<mapsto> Unreadable e'), [Render pdf])
              | Written \<Rightarrow>
                  (case ext_show x of
                     Some e \<Rightarrow> (Inl e, fs(pdf \<mapsto> Pdf), [Render pdf, Show queried_dom])
                   | None \<Rightarrow> (Inr (), fs(pdf \<mapsto> Pdf), [Render pdf, Show queried_dom]))))"

text \<open>Lines 188 and 189, common to both branches of \<^verbatim>\<open>main\<close>.\<close>

definition tree_and_finish ::
  "ext \<Rightarrow> (string \<rightharpoonup> fcontent) \<Rightarrow> event list \<Rightarrow> Protein list \<Rightarrow> int \<Rightarrow> string \<Rightarrow> string \<Rightarrow> run" where
  "tree_and_finish x fs tr process_itrpro_obj tax_id query_dom_id save_to_dir =
     (case make_tree x fs process_itrpro_obj tax_id query_dom_id save_to_dir of
        (r, fs', evs) \<Rightarrow>
          \<lparr>run_result = r, run_files = fs',
           run_trace = tr @ MakeTree process_itrpro_obj # evs @
             (case r of Inl e \<Rightarrow> [] | Inr u \<Rightarrow> [Print ''Finished script.''])\<rparr>)"

text \<open>
  \<^verbatim>\<open>main\<close>, lines 175 to 189. The taxonomy lookup of line 176 comes before the test
  for the cache file, and an exception of it ends the run. The \<^verbatim>\<open>for\<close> statement
  of the filter stage iterates whatever the fetch stage returned. \<open>None\<close> is a run
  whose fetch never returns.
\<close>

definition main :: "ext \<Rightarrow> (string \<rightharpoonup> fcontent) \<Rightarrow> int \<Rightarrow> string \<Rightarrow> string \<Rightarrow> run option" where
  "main x fs tax_id query_dom_id save_to_dir =
     (case ext_descendants x tax_id of
        Inl e \<Rightarrow> Some \<lparr>run_result = Inl e, run_files = fs, run_trace = []\<rparr>
      | Inr descendents \<Rightarrow>
          (let path_file = ''ip_obj_'' @ str_of_int tax_id @ ''_'' @ query_dom_id @ ''.pkl''
           in case fs path_file of
                Some content \<Rightarrow>
                  (case load_content content of
                     Inl e \<Rightarrow>
                       Some \<lparr>run_result = Inl e, run_files = fs, run_trace = [Load path_file]\<rparr>
                   | Inr process_itrpro_obj \<Rightarrow>
                       Some (tree_and_finish x fs [Load path_file] process_itrpro_obj
                               tax_id query_dom_id save_to_dir))
              | None \<Rightarrow>
                  (case get_query_from_interpro (ext_tqdm x) (ext_s2i x) (ext_net x) query_dom_id of
                     None \<Rightarrow> None
                   | Some (r, reqs) \<Rightarrow>
                       (case r of
                          Inl e \<Rightarrow>
                            Some \<lparr>run_result = Inl e, run_files = fs,
                                  run_trace = Fetch query_dom_id # map Request reqs\<rparr>
                        | Inr itrpro_obj \<Rightarrow>
                            (case ebind (iterate itrpro_obj)
                                    (\<lambda>ip_obj. process_interpro_obj (ext_s2i x) ip_obj descendents) of
                               Inl e \<Rightarrow>
                                 Some \<lparr>run_result = Inl e, run_files = fs,
                                       run_trace = Fetch query_dom_id # map Request reqs @ [Filter]\<rparr>
                             | Inr process_itrpro_obj \<Rightarrow>
                                 (case ext_dump x path_file of
                                    Refused e \<Rightarrow>
                                      Some \<lparr>run_result = Inl e, run_files = fs,
                                            run_trace = Fetch query_dom_id # map Request reqs @
                                              [Filter]\<rparr>
                                  | Torn e e' \<Rightarrow>
                                      Some \<lparr>run_result = Inl e,
                                            run_files = fs(path_file \<mapsto> Unreadable e'),
                                            run_trace = Fetch query_dom_id # map Request reqs @
                                              [Filter, Dump path_file process_itrpro_obj]\<rparr>
                                  | Written \<Rightarrow>
                                      Some (tree_and_finish x
                                              (fs(path_file \<mapsto> Pickled process_itrpro_obj))
                                              (Fetch query_dom_id # map Request reqs @
                                                 [Filter, Dump path_file process_itrpro_obj])
                                              process_itrpro_obj tax_id query_dom_id
                                              save_to_dir)))))))"

text \<open>
  The \<^verbatim>\<open>try\<close> block of lines 193 to 199 over \<^verbatim>\<open>sys.argv\<close>, whose element 0 is the
  name of the script.
\<close>

definition argv_at :: "string list \<Rightarrow> nat \<Rightarrow> exn + string" where
  "argv_at argv i = (if i < length argv then Inr (argv ! i) else Inl IndexError)"

definition parse_argv :: "(string \<Rightarrow> int option) \<Rightarrow> string list \<Rightarrow> exn + int \<times> string \<times> string" where
  "parse_argv s2i argv =
     ebind (ebind (argv_at argv 1)
              (\<lambda>a. case s2i a of None \<Rightarrow> Inl ValueError | Some n \<Rightarrow> Inr n)) (\<lambda>tax_id.
     ebind (argv_at argv 2) (\<lambda>query_dom_id.
     ebind (if length argv = 3 then argv_at argv 3 else Inr ''./'') (\<lambda>save_to_dir.
     Inr (tax_id, query_dom_id, save_to_dir))))"

text \<open>
  Lines 192 to 203. The handler raises a string, which Python 3 refuses with a
  TypeError; \<^verbatim>\<open>main\<close> runs in the \<^verbatim>\<open>else\<close> branch, outside the handler.
\<close>

definition script :: "ext \<Rightarrow> (string \<rightharpoonup> fcontent) \<Rightarrow> string list \<Rightarrow> run option" where
  "script x fs argv =
     (case parse_argv (ext_s2i x) argv of
        Inl e \<Rightarrow> Some \<lparr>run_result = Inl TypeError, run_files = fs, run_trace = []\<rparr>
      | Inr (tax_id, query_dom_id, save_to_dir) \<Rightarrow> main x fs tax_id query_dom_id save_to_dir)"

section \<open>The record shape of the interface description\<close>

text \<open>
  The interface description names the parts of a result item by their paths:
  \<^verbatim>\<open>metadata.accession\<close>, \<^verbatim>\<open>metadata.length\<close>, \<^verbatim>\<open>metadata.source_organism.taxId\<close>
  and \<^verbatim>\<open>entries[0].entry_protein_locations[0].fragments[*].{start,end}\<close>. The
  definitions of this section follow those words, not the code: a path is looked up
  through dictionaries and lists only, and \<open>api_record\<close> holds of an item that has all
  four parts, with a taxonomic id that \<^verbatim>\<open>int()\<close> accepts.
\<close>

datatype seg = Key string | Idx nat

fun jpath :: "json \<Rightarrow> seg list \<Rightarrow> json option" where
  "jpath v [] = Some v"
| "jpath (JDict kvs) (Key k # p) = (case map_of kvs k of None \<Rightarrow> None | Some v \<Rightarrow> jpath v p)"
| "jpath (JList xs) (Idx i # p) = (if i < length xs then jpath (xs ! i) p else None)"
| "jpath _ _ = None"

definition spec_tax :: "(string \<Rightarrow> int option) \<Rightarrow> json \<Rightarrow> int option" where
  "spec_tax s2i r =
     (case jpath r [Key ''metadata'', Key ''source_organism'', Key ''taxId''] of
        None \<Rightarrow> None
      | Some t \<Rightarrow> (case py_int s2i t of Inl e \<Rightarrow> None | Inr n \<Rightarrow> Some n))"

definition spec_pair :: "json \<Rightarrow> (json \<times> json) option" where
  "spec_pair f =
     (case jpath f [Key ''start''] of
        None \<Rightarrow> None
      | Some s \<Rightarrow> (case jpath f [Key ''end''] of None \<Rightarrow> None | Some e \<Rightarrow> Some (s, e)))"

definition spec_coords :: "json \<Rightarrow> (json \<times> json) list option" where
  "spec_coords r =
     (case jpath r [Key ''entries'', Idx 0, Key ''entry_protein_locations'', Idx 0, Key ''fragments''] of
        Some (JList fs) \<Rightarrow> those (map spec_pair fs)
      | _ \<Rightarrow> None)"

definition api_record :: "(string \<Rightarrow> int option) \<Rightarrow> json \<Rightarrow> bool" where
  "api_record s2i r =
     (jpath r [Key ''metadata'', Key ''accession''] \<noteq> None \<and>
      jpath r [Key ''metadata'', Key ''length''] \<noteq> None \<and>
      spec_tax s2i r \<noteq> None \<and> spec_coords r \<noteq> None)"

definition reshaped :: "(string \<Rightarrow> int option) \<Rightarrow> json \<Rightarrow> Protein \<Rightarrow> bool" where
  "reshaped s2i r p =
     (jpath r [Key ''metadata'', Key ''accession''] = Some (prot_acc p) \<and>
      jpath r [Key ''metadata'', Key ''length''] = Some (prot_len p) \<and>
      spec_tax s2i r = Some (prot_tax p) \<and>
      spec_coords r = Some (dom_loc p))"

definition kept :: "(string \<Rightarrow> int option) \<Rightarrow> int set \<Rightarrow> json \<Rightarrow> bool" where
  "kept s2i keep r = (case spec_tax s2i r of None \<Rightarrow> False | Some t \<Rightarrow> t \<in> keep)"

text \<open>
  On the side of the code: \<open>made_from\<close> relates an input record to the \<^verbatim>\<open>Protein\<close>
  that lines 91 to 93 build from it, \<open>retained\<close> holds of the records that pass the
  test of line 90, and a request fails for the loop when \<^verbatim>\<open>get_pg\<close> or the unpacking
  of its value raises.
\<close>

definition made_from :: "(string \<Rightarrow> int option) \<Rightarrow> json \<Rightarrow> Protein \<Rightarrow> bool" where
  "made_from s2i r p = (record_fields s2i r = Inr (prot_acc p, dom_loc p, prot_len p, prot_tax p))"

definition retained :: "(string \<Rightarrow> int option) \<Rightarrow> int set \<Rightarrow> json \<Rightarrow> bool" where
  "retained s2i keep r =
     (case record_fields s2i r of Inl e \<Rightarrow> False | Inr (a, l, n, t) \<Rightarrow> t \<in> keep)"

definition request_fails :: "outcome \<Rightarrow> bool" where
  "request_fails out = isl (ebind (get_pg out) unpack)"

text \<open>The events of a run that belong to the fetch stage or to the filter stage.\<close>

fun fetch_or_filter :: "event \<Rightarrow> bool" where
  "fetch_or_filter (Fetch h) = True"
| "fetch_or_filter (Request u) = True"
| "fetch_or_filter Filter = True"
| "fetch_or_filter e = False"

section \<open>Example inputs\<close>

text \<open>
  \<open>plain_decimal\<close> reads a non-empty string of ASCII digits, a case on which every
  Python agrees; it stands for \<^verbatim>\<open>int()\<close> on strings where an example is run.
\<close>

fun read_digits :: "string \<Rightarrow> nat \<Rightarrow> int option" where
  "read_digits [] acc = Some (int acc)"
| "read_digits (c # cs) acc =
     (if c \<in> set ''0123456789'' then read_digits cs (10 * acc + (of_char c - 48)) else None)"

definition plain_decimal :: "string \<Rightarrow> int option" where
  "plain_decimal s = (if s = [] then None else read_digits s 0)"

definition example_record :: "string \<Rightarrow> json \<Rightarrow> json" where
  "example_record acc tax =
     JDict [(''metadata'', JDict [(''accession'', JStr acc), (''length'', JInt 120),
                                  (''source_organism'', JDict [(''taxId'', tax)])]),
            (''entries'', JList [JDict [(''entry_protein_locations'',
                JList [JDict [(''fragments'',
                  JList [JDict [(''start'', JInt 5), (''end'', JInt 60)]])]])]])]"

text \<open>
  A record of the interface's shape with a given accession and taxonomic id (above), a
  record without \<^verbatim>\<open>entries\<close>, pages of results, networks that answer every request
  with the same page or only the first one, and the collaborators of an example run:
  the root 2 has the single descendant 9606, any other root is unknown to the
  taxonomy, and every write succeeds.
\<close>

definition broken_record :: json where
  "broken_record =
     JDict [(''metadata'', JDict [(''accession'', JStr ''P3''), (''length'', JInt 80),
                                  (''source_organism'', JDict [(''taxId'', JStr ''10090'')])])]"

definition example_page :: "json list \<Rightarrow> json \<Rightarrow> json" where
  "example_page results next_page =
     JDict [(''count'', JInt 2), (''results'', JList results), (''next'', next_page)]"

definition empty_page :: json where
  "empty_page = JDict [(''count'', JInt 0), (''results'', JList []), (''next'', JNull)]"

definition net_always :: "json \<Rightarrow> nat \<Rightarrow> json \<Rightarrow> outcome" where
  "net_always page k url = Got True (Some page)"


definition example_results :: "json list" where
  "example_results = [example_record ''P1'' (JStr ''9606''), example_record ''P2'' (JStr ''10090'')]"

definition example_protein :: Protein where
  "example_protein = \<lparr>prot_acc = JStr ''P1'', prot_len = JInt 120, prot_tax = 9606,
         dom_loc = [(JInt 5, JInt 60)]\<rparr>"

definition example_ext :: "(nat \<Rightarrow> json \<Rightarrow> outcome) \<Rightarrow> ext" where
  "example_ext net =
     \<lparr>ext_tqdm = True, ext_s2i = plain_decimal, ext_net = net,
      ext_descendants = (\<lambda>t. if t = 2 then Inr {9606} else Inl ValueError),
      ext_gen_tree = (\<lambda>ps t d. None),
      ext_dump = (\<lambda>p. Written), ext_render = (\<lambda>p. Written), ext_show = None\<rparr>"

section \<open>Properties of the filter stage\<close>

lemma ebind_Inr: "ebind m f = Inr y \<longleftrightarrow> (\<exists>x. m = Inr x \<and> f x = Inr y)"
  by (cases m) (simp_all add: ebind_def)

lemma ebind_simps [simp]: "ebind (Inl e) f = Inl e" "ebind (Inr x) f = f x"
  by (simp_all add: ebind_def)

lemma jpath_Key: "jpath v (Key k # p) = Some w \<longleftrightarrow> (\<exists>u. getitem v k = Inr u \<and> jpath u p = Some w)"
  by (cases v) (auto split: option.splits)

lemma jpath_Idx0: "jpath v (Idx 0 # p) = Some w \<Longrightarrow> \<exists>u. getitem0 v = Inr u \<and> jpath u p = Some w"
  by (cases v; cases "case v of JList xs \<Rightarrow> xs | _ \<Rightarrow> []") (auto split: if_splits)

lemma fragment_pairs_spec: "those (map spec_pair fs) = Some l \<Longrightarrow> fragment_pairs fs = Inr l"
proof (induction fs arbitrary: l)
  case Nil then show ?case by simp
next
  case (Cons f fs)
  then show ?case
    by (auto simp: spec_pair_def jpath_Key split: option.splits)
qed

lemma locations_spec: "spec_coords r = Some l \<Longrightarrow> locations_of r = Inr l"
  unfolding spec_coords_def locations_of_def
  by (auto split: option.splits json.splits simp: jpath_Key fragment_pairs_spec dest!: jpath_Idx0)

lemma fields_spec:
  assumes "api_record s2i r"
  shows "\<exists>a l n t. record_fields s2i r = Inr (a, l, n, t) \<and>
           jpath r [Key ''metadata'', Key ''accession''] = Some a \<and>
           jpath r [Key ''metadata'', Key ''length''] = Some n \<and>
           spec_tax s2i r = Some t \<and> spec_coords r = Some l"
proof -
  from assms obtain a n t l where
    a: "jpath r [Key ''metadata'', Key ''accession''] = Some a" and
    n: "jpath r [Key ''metadata'', Key ''length''] = Some n" and
    t: "spec_tax s2i r = Some t" and l: "spec_coords r = Some l"
    by (auto simp: api_record_def)
  from a obtain m where m: "getitem r ''metadata'' = Inr m" "getitem m ''accession'' = Inr a"
    by (auto simp: jpath_Key)
  from n m have n': "getitem m ''length'' = Inr n" by (auto simp: jpath_Key)
  from t m obtain so tv where so: "getitem m ''source_organism'' = Inr so"
     "getitem so ''taxId'' = Inr tv" "py_int s2i tv = Inr t"
    by (auto simp: spec_tax_def jpath_Key split: option.splits sum.splits)
  have "record_fields s2i r = Inr (a, l, n, t)"
    by (simp add: record_fields_def m n' so locations_spec [OF l])
  with a n t l show ?thesis by blast
qed

lemma process_loop_api:
  "\<forall>r\<in>set rs. api_record s2i r \<Longrightarrow>
   \<exists>ps. process_loop s2i rs keep acc = Inr (acc @ ps) \<and>
        list_all2 (reshaped s2i) (filter (kept s2i keep) rs) ps"
proof (induction rs arbitrary: acc)
  case Nil then show ?case by simp
next
  case (Cons r rs)
  from Cons.prems have "api_record s2i r" by simp
  from fields_spec [OF this] obtain a l n t where f: "record_fields s2i r = Inr (a, l, n, t)"
    and s: "jpath r [Key ''metadata'', Key ''accession''] = Some a"
           "jpath r [Key ''metadata'', Key ''length''] = Some n"
           "spec_tax s2i r = Some t" "spec_coords r = Some l" by blast
  from Cons.prems have rest: "\<forall>r\<in>set rs. api_record s2i r" by simp
  show ?case
  proof (cases "t \<in> keep")
    case True
    let ?p = "\<lparr>prot_acc = a, prot_len = n, prot_tax = t, dom_loc = l\<rparr>"
    from Cons.IH [OF rest, of "acc @ [?p]"] obtain ps where
      ps: "process_loop s2i rs keep (acc @ [?p]) = Inr ((acc @ [?p]) @ ps)"
          "list_all2 (reshaped s2i) (filter (kept s2i keep) rs) ps" by blast
    have "reshaped s2i r ?p" by (simp add: reshaped_def s)
    moreover have "kept s2i keep r" by (simp add: kept_def s True)
    ultimately show ?thesis using ps f True
      by (intro exI [of _ "?p # ps"]) simp
  next
    case False
    from Cons.IH [OF rest, of acc] obtain ps where
      ps: "process_loop s2i rs keep acc = Inr (acc @ ps)"
          "list_all2 (reshaped s2i) (filter (kept s2i keep) rs) ps" by blast
    have "\<not> kept s2i keep r" by (simp add: kept_def s False)
    then show ?thesis using ps f False by (intro exI [of _ ps]) simp
  qed
qed

lemma process_loop_Inr:
  "process_loop s2i rs keep acc = Inr out \<Longrightarrow>
   \<exists>ps. out = acc @ ps \<and> list_all2 (made_from s2i) (filter (retained s2i keep) rs) ps"
proof (induction rs arbitrary: acc)
  case Nil then show ?case by simp
next
  case (Cons r rs)
  from Cons.prems obtain a l n t where f: "record_fields s2i r = Inr (a, l, n, t)"
    by (cases "record_fields s2i r") auto
  show ?case
  proof (cases "t \<in> keep")
    case True
    let ?p = "\<lparr>prot_acc = a, prot_len = n, prot_tax = t, dom_loc = l\<rparr>"
    from Cons.prems f True have "process_loop s2i rs keep (acc @ [?p]) = Inr out" by simp
    from Cons.IH [OF this] obtain ps where
      ps: "out = (acc @ [?p]) @ ps" "list_all2 (made_from s2i) (filter (retained s2i keep) rs) ps"
      by blast
    have "made_from s2i r ?p" by (simp add: made_from_def f)
    moreover have "retained s2i keep r" by (simp add: retained_def f True)
    ultimately show ?thesis using ps by (intro exI [of _ "?p # ps"]) simp
  next
    case False
    from Cons.prems f False have "process_loop s2i rs keep acc = Inr out" by simp
    from Cons.IH [OF this] obtain ps where
      ps: "out = acc @ ps" "list_all2 (made_from s2i) (filter (retained s2i keep) rs) ps"
      by blast
    have "\<not> retained s2i keep r" by (simp add: retained_def f False)
    then show ?thesis using ps by (intro exI [of _ ps]) simp
  qed
qed

lemma process_loop_Inl:
  "r \<in> set rs \<Longrightarrow> record_fields s2i r = Inl e \<Longrightarrow> \<exists>e'. process_loop s2i rs keep acc = Inl e'"
proof (induction rs arbitrary: acc)
  case Nil then show ?case by simp
next
  case (Cons x xs)
  show ?case
  proof (cases "record_fields s2i x")
    case (Inl e0) then show ?thesis by simp
  next
    case (Inr q)
    with Cons.prems have "r \<in> set xs" by auto
    from Cons.IH [OF this Cons.prems(2)] show ?thesis using Inr
      by (cases q) (auto split: if_splits)
  qed
qed

lemma made_from_tax: "list_all2 (made_from s2i) (filter (retained s2i keep) rs) ps \<Longrightarrow> p \<in> set ps \<Longrightarrow> prot_tax p \<in> keep"
proof -
  assume a: "list_all2 (made_from s2i) (filter (retained s2i keep) rs) ps" and p: "p \<in> set ps"
  from p obtain i where i: "i < length ps" "ps ! i = p" by (auto simp: in_set_conv_nth)
  let ?ks = "filter (retained s2i keep) rs"
  from a i have m: "made_from s2i (?ks ! i) p" and il: "i < length ?ks"
    by (auto simp: list_all2_conv_all_nth)
  from il have "?ks ! i \<in> set ?ks" by (rule nth_mem)
  then have "retained s2i keep (?ks ! i)" by simp
  with m show ?thesis by (auto simp: made_from_def retained_def)
qed


lemma plain_decimal_9606: "plain_decimal ''9606'' = Some 9606"
  by (simp add: plain_decimal_def)

lemma plain_decimal_10090: "plain_decimal ''10090'' = Some 10090"
  by (simp add: plain_decimal_def)

lemma api_record_example:
  "plain_decimal t \<noteq> None \<Longrightarrow> api_record plain_decimal (example_record a (JStr t))"
  by (auto simp add: api_record_def spec_tax_def spec_coords_def spec_pair_def example_record_def)

lemma process_example:
  "process_interpro_obj plain_decimal
     [example_record ''P1'' (JStr ''9606''), example_record ''P2'' (JStr ''10090'')] {9606} =
   Inr [\<lparr>prot_acc = JStr ''P1'', prot_len = JInt 120, prot_tax = 9606,
         dom_loc = [(JInt 5, JInt 60)]\<rparr>]"
  by (simp add: process_interpro_obj_def record_fields_def locations_of_def example_record_def
      plain_decimal_9606 plain_decimal_10090)

lemma process_example_order:
  "process_interpro_obj plain_decimal
     [example_record ''P1'' (JStr ''9606''), example_record ''P0'' (JStr ''7''),
      example_record ''P2'' (JStr ''10090'')] {9606, 10090} =
   Inr [\<lparr>prot_acc = JStr ''P1'', prot_len = JInt 120, prot_tax = 9606,
         dom_loc = [(JInt 5, JInt 60)]\<rparr>,
        \<lparr>prot_acc = JStr ''P2'', prot_len = JInt 120, prot_tax = 10090,
         dom_loc = [(JInt 5, JInt 60)]\<rparr>]"
  by (simp add: process_interpro_obj_def record_fields_def locations_of_def example_record_def
      plain_decimal_9606 plain_decimal_10090 plain_decimal_def)

text \<open>
  Claim C1. For every list of records of the shape the interface describes and every
  set of acceptable taxonomic ids, \<^verbatim>\<open>process_interpro_obj\<close> returns, and what it
  returns matches, one to one and in order, the records whose
  \<^verbatim>\<open>metadata.source_organism.taxId\<close>, converted with \<^verbatim>\<open>int()\<close>, is in the set:
  each output has the accession and the length found at \<^verbatim>\<open>metadata.accession\<close> and
  \<^verbatim>\<open>metadata.length\<close>, that taxonomic id, and the \<^verbatim>\<open>(start, end)\<close> pairs of the
  fragments of the first location of the first entry. A record whose id is not in the
  set has no counterpart in the output.
\<close>

theorem process_interpro_obj_filters:
  assumes "\<forall>r\<in>set rs. api_record s2i r"
  shows "\<exists>ps. process_interpro_obj s2i rs keep = Inr ps \<and>
              list_all2 (reshaped s2i) (filter (kept s2i keep) rs) ps"
  using process_loop_api [OF assms, of keep "[]"] by (simp add: process_interpro_obj_def)

theorem process_interpro_obj_filters_witness:
  "api_record plain_decimal (example_record ''P1'' (JStr ''9606'')) \<and>
   api_record plain_decimal (example_record ''P2'' (JStr ''10090'')) \<and>
   (\<exists>ps. process_interpro_obj plain_decimal
             [example_record ''P1'' (JStr ''9606''), example_record ''P2'' (JStr ''10090'')]
             {9606} = Inr ps \<and>
          list_all2 (reshaped plain_decimal)
            (filter (kept plain_decimal {9606})
               [example_record ''P1'' (JStr ''9606''), example_record ''P2'' (JStr ''10090'')]) ps)"
proof -
  have h1: "api_record plain_decimal (example_record ''P1'' (JStr ''9606''))"
    by (simp add: api_record_example plain_decimal_9606)
  have h2: "api_record plain_decimal (example_record ''P2'' (JStr ''10090''))"
    by (simp add: api_record_example plain_decimal_10090)
  from h1 h2
  have h: "\<forall>r\<in>set [example_record ''P1'' (JStr ''9606''), example_record ''P2'' (JStr ''10090'')].
       api_record plain_decimal r" by simp
  from h1 h2 process_interpro_obj_filters [OF h, of "{9606}"] show ?thesis by blast
qed

text \<open>
  Claim C9. Whenever \<^verbatim>\<open>process_interpro_obj\<close> returns, its output is built, one
  \<^verbatim>\<open>Protein\<close> per record and in the same order, from the sublist of the input made
  of the records that pass the membership test: the retained records keep their
  relative order, none is used twice, and the output is no longer than the input.
\<close>

theorem process_interpro_obj_order:
  assumes "process_interpro_obj s2i rs keep = Inr ps"
  shows "subseq (filter (retained s2i keep) rs) rs \<and>
         list_all2 (made_from s2i) (filter (retained s2i keep) rs) ps \<and>
         length ps \<le> length rs"
proof -
  let ?ks = "filter (retained s2i keep) rs"
  from assms process_loop_Inr [of s2i rs keep "[]" ps]
  have l: "list_all2 (made_from s2i) ?ks ps" by (simp add: process_interpro_obj_def)
  then have "length ps = length ?ks" by (simp add: list_all2_lengthD)
  then have "length ps \<le> length rs" by simp
  moreover have "subseq ?ks rs" by simp
  ultimately show ?thesis using l by blast
qed

theorem process_interpro_obj_order_witness:
  "process_interpro_obj plain_decimal
     [example_record ''P1'' (JStr ''9606''), example_record ''P0'' (JStr ''7''),
      example_record ''P2'' (JStr ''10090'')] {9606, 10090} =
   Inr [\<lparr>prot_acc = JStr ''P1'', prot_len = JInt 120, prot_tax = 9606,
         dom_loc = [(JInt 5, JInt 60)]\<rparr>,
        \<lparr>prot_acc = JStr ''P2'', prot_len = JInt 120, prot_tax = 10090,
         dom_loc = [(JInt 5, JInt 60)]\<rparr>] \<and>
   list_all2 (made_from plain_decimal)
     (filter (retained plain_decimal {9606, 10090})
        [example_record ''P1'' (JStr ''9606''), example_record ''P0'' (JStr ''7''),
         example_record ''P2'' (JStr ''10090'')])
     [\<lparr>prot_acc = JStr ''P1'', prot_len = JInt 120, prot_tax = 9606,
       dom_loc = [(JInt 5, JInt 60)]\<rparr>,
      \<lparr>prot_acc = JStr ''P2'', prot_len = JInt 120, prot_tax = 10090,
       dom_loc = [(JInt 5, JInt 60)]\<rparr>]"
  using process_interpro_obj_order [OF process_example_order] process_example_order by blast

section \<open>Properties of the fetch stage\<close>







lemma request_fails_not_ok: "request_fails (Got False body)"
  by (simp add: request_fails_def get_pg_def unpack_def)

lemma append_all_list: "append_all (JList xs) es = Inr (JList (xs @ es))"
  by (induction es arbitrary: xs) simp_all

lemma fetch_loop_stop: "fetch_loop net (reqs, JNull, res) = Some (Inr res, reqs)"
  by (subst fetch_loop.simps) simp

lemma fetch_loop_page:
  assumes "u \<noteq> JNull" "net (length reqs) u = Got True (Some pg)"
    "getitem pg ''next'' = Inr u'" "getitem pg ''results'' = Inr (JList es)"
  shows "fetch_loop net (reqs, u, JList xs) = fetch_loop net (reqs @ [u], u', JList (xs @ es))"
  using assms by (subst fetch_loop.simps) (simp add: get_pg_def unpack_def append_all_list)

lemma first_page:
  assumes "net 0 (base_url hit) = Got True (Some obj)" "getitem obj ''next'' = Inr u"
    "page_total s2i obj = Inr ()" "getitem obj ''results'' = Inr res"
  shows "get_query_from_interpro True s2i net hit = fetch_loop net ([base_url hit], u, res)"
  using assms by (simp add: get_query_from_interpro_def get_pg_def unpack_def)

lemma first_page_only:
  assumes "net 0 (base_url hit) = Got True (Some obj)" "getitem obj ''next'' = Inr JNull"
    "page_total s2i obj = Inr ()" "getitem obj ''results'' = Inr res"
  shows "get_query_from_interpro True s2i net hit = Some (Inr res, [base_url hit])"
  using assms first_page [of net hit obj JNull s2i res] by (simp add: fetch_loop_stop)

lemma no_tqdm_no_result:
  "\<exists>e reqs. get_query_from_interpro False s2i net hit = Some (Inl e, reqs)"
  by (auto simp: get_query_from_interpro_def split: sum.splits)

lemma empty_first_page:
  assumes "net 0 (base_url hit) = Got True (Some obj)" "getitem obj ''next'' = Inr nx"
    "getitem obj ''count'' = Inr c" "py_int s2i c = Inr n" "getitem obj ''results'' = Inr (JList [])"
  shows "get_query_from_interpro tq s2i net hit = Some (Inl ZeroDivisionError, [base_url hit])"
  using assms
  by (simp add: get_query_from_interpro_def get_pg_def unpack_def page_total_def true_div_def)

lemma page_total_example: "page_total s2i (example_page [r] nx) = Inr ()"
  by (simp add: page_total_def example_page_def true_div_def)


lemma getitem_example_page:
  "getitem (example_page rs nx) ''next'' = Inr nx"
  "getitem (example_page rs nx) ''results'' = Inr (JList rs)"
  by (simp_all add: example_page_def)

lemma missing_tqdm:
  assumes "net 0 (base_url hit) = Got True (Some obj)" "getitem obj ''next'' = Inr nx"
    "page_total s2i obj = Inr ()"
  shows "get_query_from_interpro False s2i net hit = Some (Inl NameError, [base_url hit])"
  using assms by (simp add: get_query_from_interpro_def get_pg_def unpack_def)

lemma fetch_example:
  "get_query_from_interpro True plain_decimal (net_always (example_page [r1, r2] JNull)) hit =
     Some (Inr (JList [r1, r2]), [base_url hit])"
  by (simp add: get_query_from_interpro_def get_pg_def unpack_def page_total_def true_div_def
      net_always_def example_page_def fetch_loop_stop)




text \<open>
  Claim C6. A first page with \<^verbatim>\<open>next == null\<close> should come back as its results with
  no further request. For the page \<^verbatim>\<open>{"count": 0, "results": [], "next": null}\<close> the
  progress estimate of line 67 divides by the length of the empty list and the call
  raises ZeroDivisionError after its single request; \<open>first_page_only\<close> above is the
  behaviour for a page on which lines 67 and 68 pass.
\<close>

theorem empty_first_page_raises:
  "get_query_from_interpro True s2i (net_always empty_page) hit =
     Some (Inl ZeroDivisionError, [base_url hit])"
  by (simp add: get_query_from_interpro_def get_pg_def unpack_def page_total_def true_div_def
      net_always_def empty_page_def)

text \<open>
  Claim C5. When \<^verbatim>\<open>tqdm\<close> could not be imported the name is unbound, and line 68
  calls it all the same: the fetch raises NameError once the first page has arrived,
  and by \<open>no_tqdm_no_result\<close> it returns a result for no network at all.
\<close>

theorem missing_tqdm_raises:
  "get_query_from_interpro False s2i (net_always (example_page [r] JNull)) hit =
     Some (Inl NameError, [base_url hit])"
  by (rule missing_tqdm [where obj = "example_page [r] JNull" and nx = JNull])
     (simp_all add: net_always_def getitem_example_page page_total_example)

text \<open>
  Claim C10. The four assignments of lines 85 to 88 come before the test of line 90: a
  record on which one of them raises makes \<^verbatim>\<open>process_interpro_obj\<close> raise whatever
  the set of acceptable ids is, so also when the id of that record is outside it. And
  a first page whose \<^verbatim>\<open>results\<close> is the empty list, with a \<^verbatim>\<open>count\<close> that \<^verbatim>\<open>int()\<close>
  accepts, makes \<^verbatim>\<open>get_query_from_interpro\<close> raise ZeroDivisionError after its one
  request.
\<close>

theorem extraction_before_test:
  "(r \<in> set rs \<and> record_fields s2i r = Inl e \<longrightarrow>
      (\<exists>e'. process_interpro_obj s2i rs keep = Inl e')) \<and>
   (net 0 (base_url hit) = Got True (Some obj) \<and> getitem obj ''next'' = Inr nx \<and>
    getitem obj ''count'' = Inr c \<and> py_int s2i c = Inr n \<and>
    getitem obj ''results'' = Inr (JList []) \<longrightarrow>
      get_query_from_interpro tq s2i net hit = Some (Inl ZeroDivisionError, [base_url hit]))"
  using process_loop_Inl [of r rs s2i e keep "[]"]
    empty_first_page [of net hit obj nx c s2i n tq]
  by (simp add: process_interpro_obj_def)


lemma broken_record_fields: "record_fields plain_decimal broken_record = Inl KeyError"
  by (simp add: record_fields_def locations_of_def broken_record_def)

theorem extraction_before_test_witness:
  "record_fields plain_decimal broken_record = Inl KeyError \<and>
   (\<exists>e'. process_interpro_obj plain_decimal [broken_record] {9606} = Inl e') \<and>
   get_query_from_interpro True plain_decimal (net_always empty_page) ''IPR000001'' =
     Some (Inl ZeroDivisionError, [base_url ''IPR000001''])"
  using extraction_before_test [of broken_record "[broken_record]" plain_decimal KeyError "{9606}"
      "net_always empty_page" "''IPR000001''" empty_page JNull "JInt 0" 0 True]
  by (simp add: broken_record_fields net_always_def) (simp add: empty_page_def)

section \<open>Properties of the pipeline\<close>

lemma str_of_int_2: "str_of_int 2 = ''2''"
  by (simp add: str_of_int_def digits_of.simps)

lemma make_tree_events:
  assumes "make_tree x fs ps T D out = (res, fs', evs)"
  shows "set evs \<subseteq> {Render (out @ D @ ''_in_'' @ str_of_int T @ ''.pdf''), Show D}"
    and "\<forall>path l. fs' path = Some (Pickled l) \<longrightarrow> fs path = Some (Pickled l)"
    and "res = Inr () \<longrightarrow> Render (out @ D @ ''_in_'' @ str_of_int T @ ''.pdf'') \<in> set evs \<and>
            fs' (out @ D @ ''_in_'' @ str_of_int T @ ''.pdf'') = Some Pdf"
  using assms
  by (auto simp: make_tree_def Let_def split: option.splits write_outcome.splits if_splits)

lemma tree_and_finish_props:
  assumes "tree_and_finish x fs tr ps T D out = r"
  shows "set (run_trace r) \<subseteq> set tr \<union>
           {MakeTree ps, Render (out @ D @ ''_in_'' @ str_of_int T @ ''.pdf''), Show D,
            Print ''Finished script.''}"
    and "MakeTree ps \<in> set (run_trace r)"
    and "\<forall>path l. run_files r path = Some (Pickled l) \<longrightarrow> fs path = Some (Pickled l)"
    and "run_result r = Inr () \<longrightarrow>
           Render (out @ D @ ''_in_'' @ str_of_int T @ ''.pdf'') \<in> set (run_trace r) \<and>
           run_files r (out @ D @ ''_in_'' @ str_of_int T @ ''.pdf'') = Some Pdf"
proof -
  obtain res fs' evs where mt: "make_tree x fs ps T D out = (res, fs', evs)"
    by (cases "make_tree x fs ps T D out") auto
  from assms mt have r: "r = \<lparr>run_result = res, run_files = fs',
           run_trace = tr @ MakeTree ps # evs @
             (case res of Inl e \<Rightarrow> [] | Inr u \<Rightarrow> [Print ''Finished script.''])\<rparr>"
    by (simp add: tree_and_finish_def)
  note ev = make_tree_events [OF mt]
  from r ev(1) show "set (run_trace r) \<subseteq> set tr \<union>
           {MakeTree ps, Render (out @ D @ ''_in_'' @ str_of_int T @ ''.pdf''), Show D,
            Print ''Finished script.''}"
    by (cases res) auto
  from r show "MakeTree ps \<in> set (run_trace r)" by simp
  from r ev(2) show "\<forall>path l. run_files r path = Some (Pickled l) \<longrightarrow> fs path = Some (Pickled l)"
    by simp
  from r ev(3) show "run_result r = Inr () \<longrightarrow>
           Render (out @ D @ ''_in_'' @ str_of_int T @ ''.pdf'') \<in> set (run_trace r) \<and>
           run_files r (out @ D @ ''_in_'' @ str_of_int T @ ''.pdf'') = Some Pdf"
    by simp
qed

lemma main_cases:
  assumes "main x fs T D out = Some r"
  obtains
    (lookup) e where "ext_descendants x T = Inl e"
      "r = \<lparr>run_result = Inl e, run_files = fs, run_trace = []\<rparr>"
  | (unreadable) S c e where "ext_descendants x T = Inr S"
      "fs (''ip_obj_'' @ str_of_int T @ ''_'' @ D @ ''.pkl'') = Some c" "load_content c = Inl e"
      "r = \<lparr>run_result = Inl e, run_files = fs,
             run_trace = [Load (''ip_obj_'' @ str_of_int T @ ''_'' @ D @ ''.pkl'')]\<rparr>"
  | (hit) S c ps where "ext_descendants x T = Inr S"
      "fs (''ip_obj_'' @ str_of_int T @ ''_'' @ D @ ''.pkl'') = Some c" "load_content c = Inr ps"
      "r = tree_and_finish x fs [Load (''ip_obj_'' @ str_of_int T @ ''_'' @ D @ ''.pkl'')] ps T D out"
  | (fetch_raises) S e reqs where "ext_descendants x T = Inr S"
      "fs (''ip_obj_'' @ str_of_int T @ ''_'' @ D @ ''.pkl'') = None"
      "r = \<lparr>run_result = Inl e, run_files = fs, run_trace = Fetch D # map Request reqs\<rparr>"
  | (filter_raises) S e reqs where "ext_descendants x T = Inr S"
      "fs (''ip_obj_'' @ str_of_int T @ ''_'' @ D @ ''.pkl'') = None"
      "r = \<lparr>run_result = Inl e, run_files = fs,
             run_trace = Fetch D # map Request reqs @ [Filter]\<rparr>"
  | (refused) S e reqs where "ext_descendants x T = Inr S"
      "fs (''ip_obj_'' @ str_of_int T @ ''_'' @ D @ ''.pkl'') = None"
      "r = \<lparr>run_result = Inl e, run_files = fs,
             run_trace = Fetch D # map Request reqs @ [Filter]\<rparr>"
  | (torn) S v ps e e' reqs where "ext_descendants x T = Inr S"
      "fs (''ip_obj_'' @ str_of_int T @ ''_'' @ D @ ''.pkl'') = None"
      "ebind (iterate v) (\<lambda>ip_obj. process_interpro_obj (ext_s2i x) ip_obj S) = Inr ps"
      "r = \<lparr>run_result = Inl e,
             run_files = fs(''ip_obj_'' @ str_of_int T @ ''_'' @ D @ ''.pkl'' \<mapsto> Unreadable e'),
             run_trace = Fetch D # map Request reqs @
               [Filter, Dump (''ip_obj_'' @ str_of_int T @ ''_'' @ D @ ''.pkl'') ps]\<rparr>"
  | (written) S v ps reqs where "ext_descendants x T = Inr S"
      "fs (''ip_obj_'' @ str_of_int T @ ''_'' @ D @ ''.pkl'') = None"
      "ebind (iterate v) (\<lambda>ip_obj. process_interpro_obj (ext_s2i x) ip_obj S) = Inr ps"
      "r = tree_and_finish x
             (fs(''ip_obj_'' @ str_of_int T @ ''_'' @ D @ ''.pkl'' \<mapsto> Pickled ps))
             (Fetch D # map Request reqs @
                [Filter, Dump (''ip_obj_'' @ str_of_int T @ ''_'' @ D @ ''.pkl'') ps])
             ps T D out"
proof (cases "ext_descendants x T")
  case (Inl e)
  with assms lookup show ?thesis by (auto simp: main_def Let_def)
next
  case S: (Inr S)
  let ?p = "''ip_obj_'' @ str_of_int T @ ''_'' @ D @ ''.pkl''"
  show ?thesis
  proof (cases "fs ?p")
    case (Some c)
    show ?thesis
    proof (cases "load_content c")
      case (Inl e)
      with assms S Some unreadable show ?thesis by (auto simp: main_def Let_def)
    next
      case (Inr ps)
      with assms S Some hit show ?thesis by (auto simp: main_def Let_def)
    qed
  next
    case None
    from assms S None obtain q reqs where
      g: "get_query_from_interpro (ext_tqdm x) (ext_s2i x) (ext_net x) D = Some (q, reqs)"
      by (cases "get_query_from_interpro (ext_tqdm x) (ext_s2i x) (ext_net x) D")
         (auto simp: main_def)
    show ?thesis
    proof (cases q)
      case (Inl e)
      with assms S None g fetch_raises show ?thesis by (auto simp: main_def Let_def)
    next
      case v: (Inr v)
      show ?thesis
      proof (cases "ebind (iterate v) (\<lambda>ip_obj. process_interpro_obj (ext_s2i x) ip_obj S)")
        case (Inl e)
        with assms S None g v filter_raises show ?thesis by (auto simp: main_def Let_def)
      next
        case ps: (Inr ps)
        show ?thesis
        proof (cases "ext_dump x ?p")
          case Written
          with assms S None g v ps written show ?thesis by (auto simp: main_def Let_def)
        next
          case (Refused e)
          with assms S None g v ps refused show ?thesis by (auto simp: main_def Let_def)
        next
          case (Torn e e')
          with assms S None g v ps torn show ?thesis by (auto simp: main_def Let_def)
        qed
      qed
    qed
  qed
qed

lemma filter_in_set:
  assumes "ebind (iterate v) (\<lambda>ip_obj. process_interpro_obj s2i ip_obj keep) = Inr ps" "p \<in> set ps"
  shows "prot_tax p \<in> keep"
proof -
  from assms(1) obtain rs where "process_interpro_obj s2i rs keep = Inr ps"
    by (auto simp: ebind_Inr)
  then have "list_all2 (made_from s2i) (filter (retained s2i keep) rs) ps"
    using process_loop_Inr [of s2i rs keep "[]" ps] by (simp add: process_interpro_obj_def)
  from made_from_tax [OF this assms(2)] show ?thesis .
qed

lemma main_trace_paths:
  assumes "main x fs T D out = Some r" "e \<in> set (run_trace r)"
  shows "(\<forall>p. e = Load p \<longrightarrow> p = ''ip_obj_'' @ str_of_int T @ ''_'' @ D @ ''.pkl'') \<and>
         (\<forall>p ps. e = Dump p ps \<longrightarrow> p = ''ip_obj_'' @ str_of_int T @ ''_'' @ D @ ''.pkl'') \<and>
         (\<forall>p. e = Render p \<longrightarrow> p = out @ D @ ''_in_'' @ str_of_int T @ ''.pdf'')"
  using assms(1)
proof (cases rule: main_cases)
  case (hit S c ps)
  from tree_and_finish_props(1) [OF hit(4) [symmetric]] assms(2) show ?thesis by auto
next
  case (written S v ps reqs)
  from tree_and_finish_props(1) [OF written(4) [symmetric]] assms(2) show ?thesis by auto
qed (use assms(2) in auto)

lemma main_dump_trace:
  assumes "main x fs T D out = Some r" "Dump path ps \<in> set (run_trace r)"
  shows "\<exists>S. ext_descendants x T = Inr S \<and> (\<forall>p\<in>set ps. prot_tax p \<in> S)"
  using assms(1)
proof (cases rule: main_cases)
  case (lookup e)
  with assms(2) show ?thesis by simp
next
  case (unreadable S c e)
  with assms(2) show ?thesis by simp
next
  case (hit S c l)
  from tree_and_finish_props(1) [OF hit(4) [symmetric]] assms(2) show ?thesis by auto
next
  case (fetch_raises S e reqs)
  with assms(2) show ?thesis by auto
next
  case (filter_raises S e reqs)
  with assms(2) show ?thesis by auto
next
  case (refused S e reqs)
  with assms(2) show ?thesis by auto
next
  case (torn S v l e e' reqs)
  from torn(4) assms(2) have "ps = l" by auto
  with torn(3) have "\<forall>p\<in>set ps. prot_tax p \<in> S" by (blast dest: filter_in_set)
  with torn(1) show ?thesis by simp
next
  case (written S v l reqs)
  from tree_and_finish_props(1) [OF written(4) [symmetric]] assms(2) have "ps = l" by auto
  with written(3) have "\<forall>p\<in>set ps. prot_tax p \<in> S" by (blast dest: filter_in_set)
  with written(1) show ?thesis by simp
qed

lemma main_dump_files:
  assumes "main x fs T D out = Some r" "run_files r path = Some (Pickled ps)"
  shows "fs path = Some (Pickled ps) \<or>
         (\<exists>S. ext_descendants x T = Inr S \<and> (\<forall>p\<in>set ps. prot_tax p \<in> S))"
  using assms(1)
proof (cases rule: main_cases)
  case (lookup e)
  with assms(2) show ?thesis by simp
next
  case (unreadable S c e)
  with assms(2) show ?thesis by simp
next
  case (hit S c l)
  from tree_and_finish_props(3) [OF hit(4) [symmetric]] assms(2) show ?thesis by simp
next
  case (fetch_raises S e reqs)
  with assms(2) show ?thesis by simp
next
  case (filter_raises S e reqs)
  with assms(2) show ?thesis by simp
next
  case (refused S e reqs)
  with assms(2) show ?thesis by simp
next
  case (torn S v l e e' reqs)
  from torn(4) assms(2) have "fs path = Some (Pickled ps)" by (simp split: if_splits)
  then show ?thesis by simp
next
  case (written S v l reqs)
  let ?c = "''ip_obj_'' @ str_of_int T @ ''_'' @ D @ ''.pkl''"
  from tree_and_finish_props(3) [OF written(4) [symmetric]] assms(2)
  have "(fs(?c \<mapsto> Pickled l)) path = Some (Pickled ps)" by blast
  then have "fs path = Some (Pickled ps) \<or> ps = l" by (simp split: if_splits)
  moreover from written(3) have "\<forall>p\<in>set l. prot_tax p \<in> S" by (blast dest: filter_in_set)
  ultimately show ?thesis using written(1) by auto
qed

lemma main_cache_hit:
  assumes "fs (''ip_obj_'' @ str_of_int T @ ''_'' @ D @ ''.pkl'') = Some c"
  shows "\<exists>r. main x fs T D out = Some r \<and>
             list_all (\<lambda>e. \<not> fetch_or_filter e) (run_trace r) \<and>
             (\<forall>S. ext_descendants x T = Inr S \<longrightarrow>
                Load (''ip_obj_'' @ str_of_int T @ ''_'' @ D @ ''.pkl'') \<in> set (run_trace r) \<and>
                (\<forall>ps. c = Pickled ps \<longrightarrow> MakeTree ps \<in> set (run_trace r)))"
proof (cases "ext_descendants x T")
  case (Inl e)
  then show ?thesis by (simp add: main_def)
next
  case S: (Inr S)
  show ?thesis
  proof (cases "load_content c")
    case (Inl e)
    with S assms show ?thesis by (cases c) (auto simp: main_def)
  next
    case lc: (Inr ps)
    let ?p = "''ip_obj_'' @ str_of_int T @ ''_'' @ D @ ''.pkl''"
    let ?r = "tree_and_finish x fs [Load ?p] ps T D out"
    from S assms lc have m: "main x fs T D out = Some ?r" by (simp add: main_def)
    have "tree_and_finish x fs [Load ?p] ps T D out = ?r" by (rule refl)
    note p = tree_and_finish_props [OF this]
    from p(1) have "\<forall>e\<in>set (run_trace ?r). \<not> fetch_or_filter e" by auto
    then have a: "list_all (\<lambda>e. \<not> fetch_or_filter e) (run_trace ?r)" by (simp add: list_all_iff)
    have l: "Load ?p \<in> set (run_trace ?r)"
      by (cases "make_tree x fs ps T D out") (simp add: tree_and_finish_def)
    from lc have "c = Pickled ps' \<Longrightarrow> ps' = ps" for ps' by auto
    with m a l p(2) show ?thesis by auto
  qed
qed

lemma example_descendants: "ext_descendants (example_ext net) 2 = Inr {9606}"
  by (simp add: example_ext_def)

lemma main_example:
  "main (example_ext (net_always (example_page example_results JNull))) Map.empty 2 ''IPR000001'' out =
   Some \<lparr>run_result = Inr (),
         run_files = [''ip_obj_2_IPR000001.pkl'' \<mapsto> Pickled [example_protein],
                      out @ ''IPR000001_in_2.pdf'' \<mapsto> Pdf],
         run_trace = [Fetch ''IPR000001'', Request (base_url ''IPR000001''), Filter,
                      Dump ''ip_obj_2_IPR000001.pkl'' [example_protein],
                      MakeTree [example_protein],
                      Render (out @ ''IPR000001_in_2.pdf''), Show ''IPR000001'',
                      Print ''Finished script.'']\<rparr>"
proof -
  have f: "get_query_from_interpro True plain_decimal (net_always (example_page example_results JNull)) ''IPR000001''
       = Some (Inr (JList example_results), [base_url ''IPR000001''])"
    by (simp add: fetch_example example_results_def)
  have p: "process_interpro_obj plain_decimal example_results {9606} = Inr [example_protein]"
    using process_example by (simp add: example_results_def example_protein_def)
  show ?thesis
    by (simp add: main_def Let_def example_ext_def f p str_of_int_2 tree_and_finish_def make_tree_def)
qed

lemma main_cached_example:
  "main (example_ext (\<lambda>k u. Failed)) [''ip_obj_2_IPR000001.pkl'' \<mapsto> Pickled []] 2 ''IPR000001'' out =
   Some \<lparr>run_result = Inr (),
         run_files = [''ip_obj_2_IPR000001.pkl'' \<mapsto> Pickled [], out @ ''IPR000001_in_2.pdf'' \<mapsto> Pdf],
         run_trace = [Load ''ip_obj_2_IPR000001.pkl'', MakeTree [],
                      Render (out @ ''IPR000001_in_2.pdf''), Show ''IPR000001'',
                      Print ''Finished script.'']\<rparr>"
  by (simp add: main_def Let_def example_ext_def str_of_int_2 tree_and_finish_def make_tree_def)

lemma main_unknown_root_example:
  "main (example_ext net) [''ip_obj_7_IPR000001.pkl'' \<mapsto> Pickled []] 7 ''IPR000001'' out =
   Some \<lparr>run_result = Inl ValueError,
         run_files = [''ip_obj_7_IPR000001.pkl'' \<mapsto> Pickled []], run_trace = []\<rparr>"
  by (simp add: main_def example_ext_def)

lemma parse_argv_three: "\<exists>e. parse_argv s2i [a0, a1, a2] = Inl e"
  by (simp add: parse_argv_def argv_at_def split: option.splits)

lemma parse_argv_missing: "length argv < 3 \<Longrightarrow> \<exists>e. parse_argv s2i argv = Inl e"
  by (auto simp add: parse_argv_def argv_at_def ebind_def split: option.splits sum.splits)

lemma parse_argv_dir: "parse_argv s2i argv = Inr (t, d, out) \<Longrightarrow> out = ''./''"
  by (auto simp add: parse_argv_def argv_at_def ebind_def split: option.splits sum.splits if_splits)

text \<open>
  Claim C2. If the file \<^verbatim>\<open>ip_obj_<tax_id>_<domain_id>.pkl\<close> exists when \<^verbatim>\<open>main\<close>
  runs, the run ends and none of its events is a call of the fetch stage, a request or
  a call of the filter stage; and when the taxonomy lookup of line 176 has returned,
  the run loads from that file, and a list unpickled from it is the one handed to
  \<^verbatim>\<open>make_tree\<close>.
\<close>

theorem cache_hit_skips_fetch:
  assumes "fs (''ip_obj_'' @ str_of_int T @ ''_'' @ D @ ''.pkl'') = Some c"
  shows "\<exists>r. main x fs T D out = Some r \<and>
             list_all (\<lambda>e. \<not> fetch_or_filter e) (run_trace r) \<and>
             (\<forall>S. ext_descendants x T = Inr S \<longrightarrow>
                Load (''ip_obj_'' @ str_of_int T @ ''_'' @ D @ ''.pkl'') \<in> set (run_trace r) \<and>
                (\<forall>ps. c = Pickled ps \<longrightarrow> MakeTree ps \<in> set (run_trace r)))"
  using assms by (rule main_cache_hit)

theorem cache_hit_skips_fetch_witness:
  "[''ip_obj_2_IPR000001.pkl'' \<mapsto> Pickled []] (''ip_obj_'' @ str_of_int 2 @ ''_'' @ ''IPR000001'' @ ''.pkl'')
     = Some (Pickled []) \<and>
   (\<exists>r. main (example_ext (\<lambda>k u. Failed)) [''ip_obj_2_IPR000001.pkl'' \<mapsto> Pickled []]
           2 ''IPR000001'' ''./'' = Some r \<and>
        list_all (\<lambda>e. \<not> fetch_or_filter e) (run_trace r) \<and>
        Load (''ip_obj_'' @ str_of_int 2 @ ''_'' @ ''IPR000001'' @ ''.pkl'') \<in> set (run_trace r) \<and>
        MakeTree [] \<in> set (run_trace r))"
proof -
  have h: "[''ip_obj_2_IPR000001.pkl'' \<mapsto> Pickled []] (''ip_obj_'' @ str_of_int 2 @ ''_'' @ ''IPR000001'' @ ''.pkl'')
     = Some (Pickled [])" by (simp add: str_of_int_2)
  from h example_descendants [of "\<lambda>k u. Failed"] cache_hit_skips_fetch
      [where fs = "[''ip_obj_2_IPR000001.pkl'' \<mapsto> Pickled []]" and T = 2 and D = "''IPR000001''"
         and c = "Pickled []" and x = "example_ext (\<lambda>k u. Failed)" and out = "''./''"]
  show ?thesis by blast
qed

text \<open>
  Claim C7. Every list that a run of \<^verbatim>\<open>main\<close> hands to \<^verbatim>\<open>pickle.dump\<close> holds only
  proteins whose taxonomic id is in the descendant set that the lookup of line 176
  returned for the root id of that run.
\<close>

theorem cache_records_in_descendants:
  assumes "main x fs T D out = Some r" "Dump path ps \<in> set (run_trace r)"
  shows "\<exists>S. ext_descendants x T = Inr S \<and> (\<forall>p\<in>set ps. prot_tax p \<in> S)"
  using assms by (rule main_dump_trace)

theorem cache_records_in_descendants_witness:
  "\<exists>r. main (example_ext (net_always (example_page example_results JNull))) Map.empty
          2 ''IPR000001'' ''./'' = Some r \<and>
       Dump ''ip_obj_2_IPR000001.pkl'' [example_protein] \<in> set (run_trace r) \<and>
       ext_descendants (example_ext (net_always (example_page example_results JNull))) 2 = Inr {9606} \<and>
       prot_tax example_protein \<in> {9606}"
proof -
  let ?x = "example_ext (net_always (example_page example_results JNull))"
  let ?r = "\<lparr>run_result = Inr (),
         run_files = [''ip_obj_2_IPR000001.pkl'' \<mapsto> Pickled [example_protein],
                      ''./'' @ ''IPR000001_in_2.pdf'' \<mapsto> Pdf],
         run_trace = [Fetch ''IPR000001'', Request (base_url ''IPR000001''), Filter,
                      Dump ''ip_obj_2_IPR000001.pkl'' [example_protein],
                      MakeTree [example_protein],
                      Render (''./'' @ ''IPR000001_in_2.pdf''), Show ''IPR000001'',
                      Print ''Finished script.'']\<rparr>"
  have m: "main ?x Map.empty 2 ''IPR000001'' ''./'' = Some ?r" by (rule main_example)
  have d: "Dump ''ip_obj_2_IPR000001.pkl'' [example_protein] \<in> set (run_trace ?r)" by simp
  have l: "ext_descendants ?x 2 = Inr {9606}" by (rule example_descendants)
  from cache_records_in_descendants [OF m d] l
  have "prot_tax example_protein \<in> {9606}" by auto
  with m d l show ?thesis by blast
qed

text \<open>
  Claim C8. With root id 2, domain id \<^verbatim>\<open>IPR000001\<close> and output directory \<^verbatim>\<open>out\<close>
  the cache file is \<^verbatim>\<open>ip_obj_2_IPR000001.pkl\<close>, but line 172 joins the directory and
  the file name without a separator: the tree is written to
  \<^verbatim>\<open>outIPR000001_in_2.pdf\<close>, beside the directory, and nothing is written to
  \<^verbatim>\<open>out/IPR000001_in_2.pdf\<close>.
\<close>

theorem render_path_no_separator:
  "main (example_ext (\<lambda>k u. Failed)) [''ip_obj_2_IPR000001.pkl'' \<mapsto> Pickled []]
      2 ''IPR000001'' ''out'' =
   Some \<lparr>run_result = Inr (),
         run_files = [''ip_obj_2_IPR000001.pkl'' \<mapsto> Pickled [],
                      ''outIPR000001_in_2.pdf'' \<mapsto> Pdf],
         run_trace = [Load ''ip_obj_2_IPR000001.pkl'', MakeTree [],
                      Render ''outIPR000001_in_2.pdf'', Show ''IPR000001'',
                      Print ''Finished script.'']\<rparr> \<and>
   [''ip_obj_2_IPR000001.pkl'' \<mapsto> Pickled [], ''outIPR000001_in_2.pdf'' \<mapsto> Pdf]
      ''out/IPR000001_in_2.pdf'' = None"
  by (simp add: main_cached_example)

text \<open>
  Claim C4. With exactly the two required arguments \<^verbatim>\<open>len(argv) == 3\<close> holds and line
  197 reads \<^verbatim>\<open>argv[3]\<close>, which does not exist: the handler raises and \<^verbatim>\<open>main\<close> does
  not run. With a third argument the test fails and the output directory is
  \<^verbatim>\<open>"./"\<close>, the argument being ignored.
\<close>

theorem cli_off_by_one:
  "parse_argv plain_decimal [''ipro_in_tax_division.py'', ''2'', ''IPR000001''] = Inl IndexError \<and>
   script (example_ext net) fs [''ipro_in_tax_division.py'', ''2'', ''IPR000001''] =
     Some \<lparr>run_result = Inl TypeError, run_files = fs, run_trace = []\<rparr> \<and>
   parse_argv plain_decimal [''ipro_in_tax_division.py'', ''2'', ''IPR000001'', ''out/''] =
     Inr (2, ''IPR000001'', ''./'')"
  by (simp add: parse_argv_def argv_at_def script_def example_ext_def plain_decimal_def)

end
